theory Spec2Isabelle
  imports Main "HOL-Library.Word"
begin

unbundle bit_operations_syntax

section \<open>Entry metadata of a ZIP archive (struct.go)\<close>

text \<open>
  A shallow embedding of \<^verbatim>\<open>struct.go\<close>: the \<^verbatim>\<open>FileHeader\<close> record, the MS-DOS
  timestamp codec, the Unix and MS-DOS permission codecs, the ZIP64 size rule and the
  \<^verbatim>\<open>os.FileInfo\<close> adapter. Go's fixed-width unsigned integers are words of the same
  width, so that \<open>+\<close>, \<open>*\<close> and the shifts wrap and truncate as they do in Go.
\<close>

type_synonym uint8 = "8 word"
type_synonym uint16 = "16 word"
type_synonym uint32 = "32 word"
type_synonym uint64 = "64 word"

text \<open>Go's \<^verbatim>\<open>int64\<close>: the 64 bits of the value, read in two's complement by \<open>sint\<close>.\<close>

type_synonym int64 = "64 word"

subsection \<open>Constants of struct.go\<close>

definition creatorFAT :: uint16 where "creatorFAT = 0"
definition creatorUnix :: uint16 where "creatorUnix = 3"
definition creatorNTFS :: uint16 where "creatorNTFS = 11"
definition creatorVFAT :: uint16 where "creatorVFAT = 14"
definition creatorMacOSX :: uint16 where "creatorMacOSX = 19"

text \<open>\<^verbatim>\<open>uint32max = (1 << 32) - 1\<close> is an untyped constant; it is compared with 64-bit sizes
  and assigned to a 32-bit field, so both readings are given.\<close>

definition uint32max :: uint64 where "uint32max = push_bit 32 1 - 1"
definition uint32max_32 :: uint32 where "uint32max_32 = 0xFFFFFFFF"

definition sIFMT :: uint32 where "sIFMT = 0xf000"
definition sIFSOCK :: uint32 where "sIFSOCK = 0xc000"
definition sIFLNK :: uint32 where "sIFLNK = 0xa000"
definition sIFREG :: uint32 where "sIFREG = 0x8000"
definition sIFBLK :: uint32 where "sIFBLK = 0x6000"
definition sIFDIR :: uint32 where "sIFDIR = 0x4000"
definition sIFCHR :: uint32 where "sIFCHR = 0x2000"
definition sIFIFO :: uint32 where "sIFIFO = 0x1000"
definition sISUID :: uint32 where "sISUID = 0x800"
definition sISGID :: uint32 where "sISGID = 0x400"
definition sISVTX :: uint32 where "sISVTX = 0x200"

definition msdosDir :: uint32 where "msdosDir = 0x10"
definition msdosReadOnly :: uint32 where "msdosReadOnly = 0x01"

subsection \<open>Package os: file modes\<close>

text \<open>
  \<^verbatim>\<open>os.FileMode\<close> is a \<^verbatim>\<open>uint32\<close>. The constants below are those of Go's standard
  library (package \<^verbatim>\<open>io/fs\<close>, re-exported by \<^verbatim>\<open>os\<close>): \<^verbatim>\<open>ModeDir = 1 << 31\<close>, and each
  following constant one bit lower. Since Go 1.12 the mask \<^verbatim>\<open>ModeType\<close> is
  \<^verbatim>\<open>ModeDir | ModeSymlink | ModeNamedPipe | ModeSocket | ModeDevice | ModeCharDevice | ModeIrregular\<close>;
  up to Go 1.10 it was \<^verbatim>\<open>ModeDir | ModeSymlink | ModeNamedPipe | ModeSocket | ModeDevice\<close>
  (\<open>ModeType_go110\<close> below, used only to compare).
\<close>

type_synonym FileMode = uint32

definition ModeDir :: FileMode where "ModeDir = push_bit 31 1"
definition ModeAppend :: FileMode where "ModeAppend = push_bit 30 1"
definition ModeExclusive :: FileMode where "ModeExclusive = push_bit 29 1"
definition ModeTemporary :: FileMode where "ModeTemporary = push_bit 28 1"
definition ModeSymlink :: FileMode where "ModeSymlink = push_bit 27 1"
definition ModeDevice :: FileMode where "ModeDevice = push_bit 26 1"
definition ModeNamedPipe :: FileMode where "ModeNamedPipe = push_bit 25 1"
definition ModeSocket :: FileMode where "ModeSocket = push_bit 24 1"
definition ModeSetuid :: FileMode where "ModeSetuid = push_bit 23 1"
definition ModeSetgid :: FileMode where "ModeSetgid = push_bit 22 1"
definition ModeCharDevice :: FileMode where "ModeCharDevice = push_bit 21 1"
definition ModeSticky :: FileMode where "ModeSticky = push_bit 20 1"
definition ModeIrregular :: FileMode where "ModeIrregular = push_bit 19 1"

definition ModeType :: FileMode where
  "ModeType = ModeDir OR ModeSymlink OR ModeNamedPipe OR ModeSocket OR ModeDevice
     OR ModeCharDevice OR ModeIrregular"

definition ModeType_go110 :: FileMode where
  "ModeType_go110 = ModeDir OR ModeSymlink OR ModeNamedPipe OR ModeSocket OR ModeDevice"

definition ModePerm :: FileMode where "ModePerm = 0x1FF"

text \<open>\<^verbatim>\<open>func (m FileMode) IsDir() bool { return m&ModeDir != 0 }\<close>\<close>

definition IsDir :: "FileMode \<Rightarrow> bool" where
  "IsDir m = (m AND ModeDir \<noteq> 0)"

lemmas os_mode_defs = ModeDir_def ModeAppend_def ModeExclusive_def ModeTemporary_def
  ModeSymlink_def ModeDevice_def ModeNamedPipe_def ModeSocket_def ModeSetuid_def
  ModeSetgid_def ModeCharDevice_def ModeSticky_def ModeIrregular_def ModeType_def
  ModeType_go110_def ModePerm_def

lemmas unix_mode_defs = sIFMT_def sIFSOCK_def sIFLNK_def sIFREG_def sIFBLK_def sIFDIR_def
  sIFCHR_def sIFIFO_def sISUID_def sISGID_def sISVTX_def

subsection \<open>The FileHeader record\<close>

text \<open>
  Modelled from the spec: the types \<^verbatim>\<open>EncryptionMethod\<close> and \<^verbatim>\<open>passwordFn\<close> of the fields
  \<^verbatim>\<open>encryption\<close> and \<^verbatim>\<open>password\<close>, which other files of the package declare. The
  specification describes them as "an encryption-method tag" and "a password-supplying
  capability reference", an "opaque payload, not interpreted by this core"; no function of
  struct.go reads or writes the two fields. The types are abstract, and a field holds
  \<open>None\<close> for Go's zero value.
\<close>

typedecl EncryptionMethod
typedecl passwordFn

text \<open>
  The fields of \<^verbatim>\<open>type FileHeader struct\<close>, in the order of the source. A Go string and a
  \<^verbatim>\<open>[]byte\<close> are byte sequences.
\<close>

record FileHeader =
  Name :: string
  CreatorVersion :: uint16
  ReaderVersion :: uint16
  Flags :: uint16
  Method :: uint16
  ModifiedTime :: uint16
  ModifiedDate :: uint16
  CRC32 :: uint32
  CompressedSize :: uint32
  UncompressedSize :: uint32
  CompressedSize64 :: uint64
  UncompressedSize64 :: uint64
  Extra :: "uint8 list"
  ExternalAttrs :: uint32
  Comment :: string
  DeferAuth :: bool
  encryption :: "EncryptionMethod option"
  password :: "passwordFn option"
  ae :: uint16
  aesStrength :: uint8

subsection \<open>Package time: calendar timestamps in UTC\<close>

text \<open>
  Package \<^verbatim>\<open>time\<close> belongs to Go's standard library. struct.go builds a \<^verbatim>\<open>time.Time\<close> with
  \<^verbatim>\<open>time.Date(..., time.UTC)\<close> and reads one, after \<^verbatim>\<open>t.In(time.UTC)\<close>, through
  \<^verbatim>\<open>Year\<close>, \<^verbatim>\<open>Month\<close>, \<^verbatim>\<open>Day\<close>, \<^verbatim>\<open>Hour\<close>, \<^verbatim>\<open>Minute\<close> and \<^verbatim>\<open>Second\<close>. A \<open>Time\<close> is
  therefore modelled by what these accessors return in UTC, with the nanoseconds: the UTC
  calendar timestamp of the instant. Two Go values that denote the same instant in
  different locations are the same \<open>Time\<close> here, and \<open>In_UTC\<close> is the identity.
\<close>

record Time =
  Year :: int
  Month :: nat
  Day :: nat
  Hour :: nat
  Minute :: nat
  Second :: nat
  Nanosecond :: nat

text \<open>The Gregorian calendar: \<^verbatim>\<open>isLeap\<close> and \<^verbatim>\<open>daysIn\<close> of package \<^verbatim>\<open>time\<close>. A year is
  divisible by 4, 100 or 400 in Go (\<^verbatim>\<open>year%4 == 0\<close>) exactly when \<open>mod\<close> gives 0.\<close>

definition isLeap :: "int \<Rightarrow> bool" where
  "isLeap year = (year mod 4 = 0 \<and> (year mod 100 \<noteq> 0 \<or> year mod 400 = 0))"

definition daysIn :: "int \<Rightarrow> int \<Rightarrow> int" where
  "daysIn m year =
     (if m = 2 then (if isLeap year then 29 else 28)
      else if m = 4 \<or> m = 6 \<or> m = 9 \<or> m = 11 then 30
      else 31)"

text \<open>The calendar timestamps: what the accessors of a \<^verbatim>\<open>time.Time\<close> can return.\<close>

definition valid_Time :: "Time \<Rightarrow> bool" where
  "valid_Time t =
     (1 \<le> Month t \<and> Month t \<le> 12
      \<and> 1 \<le> Day t \<and> int (Day t) \<le> daysIn (int (Month t)) (Year t)
      \<and> Hour t < 24 \<and> Minute t < 60 \<and> Second t < 60 \<and> Nanosecond t < 1000000000)"

definition In_UTC :: "Time \<Rightarrow> Time" where
  "In_UTC t = t"

text \<open>
  \<^verbatim>\<open>time.Date\<close>: "The month, day, hour, min, sec, and nsec values may be outside their
  usual ranges and will be normalized during the conversion. For example, October 32
  converts to November 1." \<open>norm\<close> is the helper of that name in package \<^verbatim>\<open>time\<close>: it
  returns \<open>nhi, nlo\<close> with \<open>hi * base + lo = nhi * base + nlo\<close> and \<open>0 \<le> nlo < base\<close>
  (both divisions are of non-negative numbers, where Go's \<^verbatim>\<open>/\<close> and \<open>div\<close> agree).
  \<^verbatim>\<open>time.Date\<close> normalizes the month into the year, the nanoseconds into the seconds and
  so on up to the day, and then counts \<open>day - 1\<close> days from the first of the month;
  \<open>roll\<close> does this counting on the calendar, a month at a time.
\<close>

definition norm :: "int \<Rightarrow> int \<Rightarrow> int \<Rightarrow> int \<times> int" where
  "norm hi lo base =
     (let (hi1, lo1) =
            (if lo < 0 then (let n = (- lo - 1) div base + 1 in (hi - n, lo + n * base))
             else (hi, lo));
          (hi2, lo2) =
            (if lo1 \<ge> base then (let n = lo1 div base in (hi1 + n, lo1 - n * base))
             else (hi1, lo1))
      in (hi2, lo2))"

function roll :: "int \<Rightarrow> int \<Rightarrow> int \<Rightarrow> int \<times> int \<times> int" where
  "roll y m d =
     (if d < 1 then
        (if m = 1 then roll (y - 1) 12 (d + 31) else roll y (m - 1) (d + daysIn (m - 1) y))
      else if d > daysIn m y then
        (if m = 12 then roll (y + 1) 1 (d - 31) else roll y (m + 1) (d - daysIn m y))
      else (y, m, d))"
  by pat_completeness auto
termination
  by (relation "measure (\<lambda>(y, m, d). if d < 1 then nat (1 - d) + 32 else nat d)")
    (auto simp: daysIn_def)

declare roll.simps [simp del]

definition time_Date :: "int \<Rightarrow> int \<Rightarrow> int \<Rightarrow> int \<Rightarrow> int \<Rightarrow> int \<Rightarrow> int \<Rightarrow> Time" where
  "time_Date year month day hour mn sec nsec =
     (let (year, m) = norm year (month - 1) 12;
          month = m + 1;
          (sec, nsec) = norm sec nsec 1000000000;
          (mn, sec) = norm mn sec 60;
          (hour, mn) = norm hour mn 60;
          (day, hour) = norm day hour 24;
          (y, mo, d) = roll year month day
      in \<lparr>Year = y, Month = nat mo, Day = nat d, Hour = nat hour, Minute = nat mn,
          Second = nat sec, Nanosecond = nat nsec\<rparr>)"

subsection \<open>The MS-DOS timestamp codec\<close>

text \<open>
  \<^verbatim>\<open>msDosTimeToTime\<close>. In Go the shifts and \<^verbatim>\<open>&\<close> bind tighter than \<^verbatim>\<open>+\<close>, and
  \<^verbatim>\<open>&\<close> and \<^verbatim>\<open>*\<close> have the same precedence and associate to the left:
  \<^verbatim>\<open>dosDate>>9+1980\<close> is \<^verbatim>\<open>(dosDate>>9)+1980\<close>, \<^verbatim>\<open>dosDate>>5&0xf\<close> is \<^verbatim>\<open>(dosDate>>5)&0xf\<close>
  and \<^verbatim>\<open>dosTime&0x1f*2\<close> is \<^verbatim>\<open>(dosTime&0x1f)*2\<close>, all computed in \<^verbatim>\<open>uint16\<close> before the
  conversion to \<^verbatim>\<open>int\<close>.
\<close>

definition msDosTimeToTime :: "uint16 \<Rightarrow> uint16 \<Rightarrow> Time" where
  "msDosTimeToTime dosDate dosTime =
     time_Date
       (uint (drop_bit 9 dosDate + 1980))
       (uint (drop_bit 5 dosDate AND 0xf))
       (uint (dosDate AND 0x1f))
       (uint (drop_bit 11 dosTime))
       (uint (drop_bit 5 dosTime AND 0x3f))
       (uint ((dosTime AND 0x1f) * 2))
       0"

text \<open>
  \<^verbatim>\<open>timeToMsDosTime\<close>. The sums are computed on Go's \<^verbatim>\<open>int\<close> and then converted to
  \<^verbatim>\<open>uint16\<close>, which keeps the low 16 bits; the low 16 bits of a wrapped machine sum are those
  of the exact sum, so the sums are taken on \<open>int\<close> and truncated by \<open>word_of_int\<close>.
  \<^verbatim>\<open>t.Second()/2\<close> divides a number between 0 and 59.
\<close>

definition timeToMsDosTime :: "Time \<Rightarrow> uint16 \<times> uint16" where
  "timeToMsDosTime t0 =
     (let t = In_UTC t0;
          fDate = word_of_int (int (Day t) + push_bit 5 (int (Month t)) + push_bit 9 (Year t - 1980));
          fTime = word_of_int
            (int (Second t div 2) + push_bit 5 (int (Minute t)) + push_bit 11 (int (Hour t)))
      in (fDate, fTime))"

definition ModTime :: "FileHeader \<Rightarrow> Time" where
  "ModTime fh = msDosTimeToTime (ModifiedDate fh) (ModifiedTime fh)"

definition SetModTime :: "FileHeader \<Rightarrow> Time \<Rightarrow> FileHeader" where
  "SetModTime fh t =
     (case timeToMsDosTime t of (fDate, fTime) \<Rightarrow> fh\<lparr>ModifiedDate := fDate, ModifiedTime := fTime\<rparr>)"

subsection \<open>The permission codecs\<close>

text \<open>The octal literals of the source: \<^verbatim>\<open>0777\<close> is 511, \<^verbatim>\<open>0666\<close> is 438, \<^verbatim>\<open>0222\<close> is 146
  and \<^verbatim>\<open>0200\<close> is 128.\<close>

definition msdosModeToFileMode :: "uint32 \<Rightarrow> FileMode" where
  "msdosModeToFileMode m =
     (let mode = (if m AND msdosDir \<noteq> 0 then ModeDir OR 511 else 438);
          mode = (if m AND msdosReadOnly \<noteq> 0 then mode AND NOT 146 else mode)
      in mode)"

text \<open>A Go \<^verbatim>\<open>switch\<close> takes the first case whose value equals the tag, and \<^verbatim>\<open>default\<close> when
  none does, wherever \<^verbatim>\<open>default\<close> is written.\<close>

definition fileModeToUnixMode :: "FileMode \<Rightarrow> uint32" where
  "fileModeToUnixMode mode =
     (let t = mode AND ModeType;
          m = (if t = ModeDir then sIFDIR
               else if t = ModeSymlink then sIFLNK
               else if t = ModeNamedPipe then sIFIFO
               else if t = ModeSocket then sIFSOCK
               else if t = ModeDevice then
                 (if mode AND ModeCharDevice \<noteq> 0 then sIFCHR else sIFBLK)
               else sIFREG);
          m = (if mode AND ModeSetuid \<noteq> 0 then m OR sISUID else m);
          m = (if mode AND ModeSetgid \<noteq> 0 then m OR sISGID else m);
          m = (if mode AND ModeSticky \<noteq> 0 then m OR sISVTX else m)
      in m OR (mode AND 511))"

text \<open>
  The same function with the type mask that \<^verbatim>\<open>os.ModeType\<close> had up to Go 1.10, to compare
  with; nothing else is defined from it.
\<close>

definition fileModeToUnixMode_go110 :: "FileMode \<Rightarrow> uint32" where
  "fileModeToUnixMode_go110 mode =
     (let t = mode AND ModeType_go110;
          m = (if t = ModeDir then sIFDIR
               else if t = ModeSymlink then sIFLNK
               else if t = ModeNamedPipe then sIFIFO
               else if t = ModeSocket then sIFSOCK
               else if t = ModeDevice then
                 (if mode AND ModeCharDevice \<noteq> 0 then sIFCHR else sIFBLK)
               else sIFREG);
          m = (if mode AND ModeSetuid \<noteq> 0 then m OR sISUID else m);
          m = (if mode AND ModeSetgid \<noteq> 0 then m OR sISGID else m);
          m = (if mode AND ModeSticky \<noteq> 0 then m OR sISVTX else m)
      in m OR (mode AND 511))"

definition unixModeToFileMode :: "uint32 \<Rightarrow> FileMode" where
  "unixModeToFileMode m =
     (let mode = m AND 511;
          t = m AND sIFMT;
          mode = (if t = sIFBLK then mode OR ModeDevice
                  else if t = sIFCHR then mode OR (ModeDevice OR ModeCharDevice)
                  else if t = sIFDIR then mode OR ModeDir
                  else if t = sIFIFO then mode OR ModeNamedPipe
                  else if t = sIFLNK then mode OR ModeSymlink
                  else if t = sIFREG then mode
                  else if t = sIFSOCK then mode OR ModeSocket
                  else mode);
          mode = (if m AND sISGID \<noteq> 0 then mode OR ModeSetgid else mode);
          mode = (if m AND sISUID \<noteq> 0 then mode OR ModeSetuid else mode);
          mode = (if m AND sISVTX \<noteq> 0 then mode OR ModeSticky else mode)
      in mode)"

text \<open>\<^verbatim>\<open>Mode\<close>: the switch has no default, so for any other creator the mode stays at its zero
  value. \<^verbatim>\<open>fh.Name[len(fh.Name)-1]\<close> is read only when the name is not empty.\<close>

definition Mode :: "FileHeader \<Rightarrow> FileMode" where
  "Mode fh =
     (let c = drop_bit 8 (CreatorVersion fh);
          mode = (if c = creatorUnix \<or> c = creatorMacOSX then
                    unixModeToFileMode (drop_bit 16 (ExternalAttrs fh))
                  else if c = creatorNTFS \<or> c = creatorVFAT \<or> c = creatorFAT then
                    msdosModeToFileMode (ExternalAttrs fh)
                  else 0);
          mode = (if length (Name fh) > 0 \<and> Name fh ! (length (Name fh) - 1) = CHR ''/''
                  then mode OR ModeDir else mode)
      in mode)"

text \<open>\<^verbatim>\<open>SetMode\<close>: \<^verbatim>\<open>fh.CreatorVersion&0xff | creatorUnix<<8\<close> is
  \<^verbatim>\<open>(fh.CreatorVersion&0xff) | (creatorUnix<<8)\<close>.\<close>

definition SetMode :: "FileHeader \<Rightarrow> FileMode \<Rightarrow> FileHeader" where
  "SetMode fh0 mode =
     (let fh = fh0\<lparr>CreatorVersion := (CreatorVersion fh0 AND 0xff) OR push_bit 8 creatorUnix\<rparr>;
          fh = fh\<lparr>ExternalAttrs := push_bit 16 (fileModeToUnixMode mode)\<rparr>;
          fh = (if mode AND ModeDir \<noteq> 0 then fh\<lparr>ExternalAttrs := ExternalAttrs fh OR msdosDir\<rparr>
                else fh);
          fh = (if mode AND 128 = 0 then fh\<lparr>ExternalAttrs := ExternalAttrs fh OR msdosReadOnly\<rparr>
                else fh)
      in fh)"

text \<open>
  The permission views of the specification, as values of \<^verbatim>\<open>os.FileMode\<close>: the type bits
  are those of a regular file (none), a directory, a symbolic link, a named pipe, a socket,
  a block device (\<^verbatim>\<open>ModeDevice\<close>) or a character device (\<^verbatim>\<open>ModeDevice | ModeCharDevice\<close>),
  and no bit is set besides the type bits, setuid, setgid, sticky and the nine permission
  bits.
\<close>

definition is_PermissionView :: "FileMode \<Rightarrow> bool" where
  "is_PermissionView mode =
     (mode AND ModeType \<in> {0, ModeDir, ModeSymlink, ModeNamedPipe, ModeSocket, ModeDevice,
        ModeDevice OR ModeCharDevice}
      \<and> mode AND NOT (ModeType OR ModeSetuid OR ModeSetgid OR ModeSticky OR 511) = 0)"

subsection \<open>The ZIP64 size rule\<close>

text \<open>\<^verbatim>\<open>return fh.CompressedSize64 > uint32max || fh.UncompressedSize64 > uint32max\<close>\<close>

definition isZip64 :: "FileHeader \<Rightarrow> bool" where
  "isZip64 fh = (CompressedSize64 fh > uint32max \<or> UncompressedSize64 fh > uint32max)"

subsection \<open>The os.FileInfo adapter\<close>

text \<open>
  \<^verbatim>\<open>path.Base\<close> of Go's standard library: "Base returns the last element of path.
  Trailing slashes are removed before extracting the last element. If the path is empty,
  Base returns ".". If the path consists entirely of slashes, Base returns "/"."
\<close>

definition path_Base :: "string \<Rightarrow> string" where
  "path_Base path =
     (if path = [] then ''.''
      else
        (let p = rev (dropWhile (\<lambda>c. c = CHR ''/'') (rev path));
             p = rev (takeWhile (\<lambda>c. c \<noteq> CHR ''/'') (rev p))
         in if p = [] then ''/'' else p))"

text \<open>
  \<^verbatim>\<open>os.FileInfo\<close> is an interface; a value of it is modelled by what its methods return.
  \<^verbatim>\<open>headerFileInfo\<close> holds a pointer to the header and computes each answer when asked,
  so each of its methods is a function of the header (\<^verbatim>\<open>Sys\<close> returns the header
  itself). \<^verbatim>\<open>int64(x)\<close> of a \<^verbatim>\<open>uint64\<close> keeps the 64 bits, and of a \<^verbatim>\<open>uint32\<close> extends it
  with zeros.
\<close>

record os_FileInfo =
  fi_Name :: string
  fi_Size :: int64
  fi_Mode :: FileMode
  fi_ModTime :: Time

definition headerFileInfo_Name :: "FileHeader \<Rightarrow> string" where
  "headerFileInfo_Name fh = path_Base (Name fh)"

definition headerFileInfo_Size :: "FileHeader \<Rightarrow> int64" where
  "headerFileInfo_Size fh =
     (if UncompressedSize64 fh > 0 then UncompressedSize64 fh
      else ucast (UncompressedSize fh))"

definition headerFileInfo_Mode :: "FileHeader \<Rightarrow> FileMode" where
  "headerFileInfo_Mode fh = Mode fh"

definition headerFileInfo_IsDir :: "FileHeader \<Rightarrow> bool" where
  "headerFileInfo_IsDir fh = IsDir (headerFileInfo_Mode fh)"

definition headerFileInfo_ModTime :: "FileHeader \<Rightarrow> Time" where
  "headerFileInfo_ModTime fh = ModTime fh"

definition FileInfo :: "FileHeader \<Rightarrow> os_FileInfo" where
  "FileInfo fh =
     \<lparr>fi_Name = headerFileInfo_Name fh, fi_Size = headerFileInfo_Size fh,
      fi_Mode = headerFileInfo_Mode fh, fi_ModTime = headerFileInfo_ModTime fh\<rparr>"

text \<open>The zero value of \<^verbatim>\<open>FileHeader\<close>, from which the composite literal
  \<^verbatim>\<open>&FileHeader{Name: ..., UncompressedSize64: ...}\<close> starts.\<close>

definition zero_FileHeader :: FileHeader where
  "zero_FileHeader =
     \<lparr>Name = [], CreatorVersion = 0, ReaderVersion = 0, Flags = 0, Method = 0,
      ModifiedTime = 0, ModifiedDate = 0, CRC32 = 0, CompressedSize = 0, UncompressedSize = 0,
      CompressedSize64 = 0, UncompressedSize64 = 0, Extra = [], ExternalAttrs = 0,
      Comment = [], DeferAuth = False, encryption = None, password = None, ae = 0,
      aesStrength = 0\<rparr>"

text \<open>
  \<^verbatim>\<open>FileInfoHeader\<close> returns a header and an error; \<open>None\<close> is Go's \<^verbatim>\<open>nil\<close> error.
  \<^verbatim>\<open>uint64(size)\<close> keeps the 64 bits of the \<^verbatim>\<open>int64\<close>, and \<^verbatim>\<open>uint32(x)\<close> keeps the low 32
  bits of \<open>x\<close>.
\<close>

typedecl error

definition FileInfoHeader :: "os_FileInfo \<Rightarrow> FileHeader \<times> error option" where
  "FileInfoHeader fi =
     (let size = fi_Size fi;
          fh = zero_FileHeader\<lparr>Name := fi_Name fi, UncompressedSize64 := size\<rparr>;
          fh = SetModTime fh (fi_ModTime fi);
          fh = SetMode fh (fi_Mode fi);
          fh = (if UncompressedSize64 fh > uint32max then fh\<lparr>UncompressedSize := uint32max_32\<rparr>
                else fh\<lparr>UncompressedSize := ucast (UncompressedSize64 fh)\<rparr>)
      in (fh, None))"

section \<open>Theorems\<close>

subsection \<open>The calendar and the packed fields\<close>

lemma daysIn_bounds: "28 \<le> daysIn m y \<and> daysIn m y \<le> 31"
  by (simp add: daysIn_def)

lemma norm_id: "0 \<le> lo \<Longrightarrow> lo < base \<Longrightarrow> norm hi lo base = (hi, lo)"
  by (simp add: norm_def)

lemma roll_id: "1 \<le> d \<Longrightarrow> d \<le> daysIn m y \<Longrightarrow> roll y m d = (y, m, d)"
  by (simp add: roll.simps [of y m d])

lemma time_Date_id:
  assumes "1 \<le> mo" "mo \<le> 12" "1 \<le> d" "d \<le> daysIn mo y" "0 \<le> h" "h < 24" "0 \<le> mi" "mi < 60"
    "0 \<le> s" "s < 60" "0 \<le> ns" "ns < 1000000000"
  shows "time_Date y mo d h mi s ns =
    \<lparr>Year = y, Month = nat mo, Day = nat d, Hour = nat h, Minute = nat mi, Second = nat s,
      Nanosecond = nat ns\<rparr>"
  using assms by (simp add: time_Date_def norm_id roll_id)

lemma norm_div_mod:
  assumes "0 < base"
  shows "norm hi lo base = (hi + lo div base, lo mod base)"
proof (cases "lo < 0")
  case True
  define n where "n = (- lo - 1) div base + 1"
  have n: "n = - (lo div base)"
  proof -
    have "(- lo - 1) div base = - (lo div base) - 1"
    proof (rule int_div_pos_eq [where r = "base - 1 - lo mod base"])
      have "lo = base * (lo div base) + lo mod base" by simp
      then show "- lo - 1 = base * (- (lo div base) - 1) + (base - 1 - lo mod base)"
        by (simp add: algebra_simps)
      show "0 \<le> base - 1 - lo mod base"
        using pos_mod_bound [OF assms, of lo] by simp
      show "base - 1 - lo mod base < base"
        using pos_mod_sign [OF assms, of lo] by simp
    qed
    then show ?thesis by (simp add: n_def)
  qed
  have lo': "lo + n * base = lo mod base"
    unfolding n by (simp add: minus_div_mult_eq_mod [symmetric] algebra_simps)
  have "lo + n * base < base" "0 \<le> lo + n * base"
    unfolding lo' using assms by simp_all
  then show ?thesis
    using True lo' n by (simp add: norm_def Let_def n_def [symmetric])
next
  case False
  show ?thesis
  proof (cases "lo \<ge> base")
    case True
    then show ?thesis using False assms
      by (simp add: norm_def Let_def minus_div_mult_eq_mod algebra_simps)
  next
    case b: False
    then show ?thesis using False assms by (simp add: norm_def)
  qed
qed

lemma roll_valid:
  assumes "1 \<le> m" and "m \<le> 12"
  shows "case roll y m d of (y', m', d') \<Rightarrow> 1 \<le> m' \<and> m' \<le> 12 \<and> 1 \<le> d' \<and> d' \<le> daysIn m' y'"
  using assms
proof (induction y m d rule: roll.induct)
  case (1 y m d)
  show ?case
  proof (cases "d < 1")
    case True
    then show ?thesis
      using "1.IH"(1,2) "1.prems" by (subst roll.simps) (cases "m = 1"; simp)
  next
    case False
    show ?thesis
    proof (cases "d > daysIn m y")
      case True
      then show ?thesis
        using False "1.IH"(3,4) "1.prems" by (subst roll.simps) (cases "m = 12"; simp)
    next
      case b: False
      then show ?thesis
        using False "1.prems" by (subst roll.simps) simp
    qed
  qed
qed

lemma time_Date_valid: "valid_Time (time_Date y mo d h mi s ns)"
proof -
  obtain y1 m1 where a: "norm y (mo - 1) 12 = (y1, m1)" by (cases "norm y (mo - 1) 12")
  then have m1: "0 \<le> m1" "m1 < 12" by (auto simp add: norm_div_mod)
  obtain s1 ns1 where b: "norm s ns 1000000000 = (s1, ns1)" by (cases "norm s ns 1000000000")
  then have ns1: "0 \<le> ns1" "ns1 < 1000000000" by (auto simp add: norm_div_mod)
  obtain mi1 s2 where c: "norm mi s1 60 = (mi1, s2)" by (cases "norm mi s1 60")
  then have s2: "0 \<le> s2" "s2 < 60" by (auto simp add: norm_div_mod)
  obtain h1 mi2 where d: "norm h mi1 60 = (h1, mi2)" by (cases "norm h mi1 60")
  then have mi2: "0 \<le> mi2" "mi2 < 60" by (auto simp add: norm_div_mod)
  obtain d1 h2 where e: "norm d h1 24 = (d1, h2)" by (cases "norm d h1 24")
  then have h2: "0 \<le> h2" "h2 < 24" by (auto simp add: norm_div_mod)
  obtain y' m' d' where r: "roll y1 (m1 + 1) d1 = (y', m', d')" by (cases "roll y1 (m1 + 1) d1")
  have v: "1 \<le> m' \<and> m' \<le> 12 \<and> 1 \<le> d' \<and> d' \<le> daysIn m' y'"
    using roll_valid [of "m1 + 1" y1 d1] m1 r by simp
  have "time_Date y mo d h mi s ns =
      \<lparr>Year = y', Month = nat m', Day = nat d', Hour = nat h2, Minute = nat mi2,
        Second = nat s2, Nanosecond = nat ns1\<rparr>"
    by (simp add: time_Date_def a b c d e r)
  then show ?thesis
    using v ns1 s2 mi2 h2 by (simp add: valid_Time_def) linarith
qed

lemma int_and_31: "(x::int) AND 31 = x mod 32"
  using take_bit_eq_mask [of 5 x] by (simp add: take_bit_eq_mod mask_numeral)

lemma int_and_15: "(x::int) AND 15 = x mod 16"
  using take_bit_eq_mask [of 4 x] by (simp add: take_bit_eq_mod mask_numeral)

lemma int_and_63: "(x::int) AND 63 = x mod 64"
  using take_bit_eq_mask [of 6 x] by (simp add: take_bit_eq_mod mask_numeral)

lemma uint_fields:
  fixes w :: uint16
  shows "uint (drop_bit 9 w + 1980) = uint w div 512 + 1980"
    and "uint (drop_bit 5 w AND 0xf) = (uint w div 32) mod 16"
    and "uint (w AND 0x1f) = uint w mod 32"
    and "uint (drop_bit 11 w) = uint w div 2048"
    and "uint (drop_bit 5 w AND 0x3f) = (uint w div 32) mod 64"
    and "uint ((w AND 0x1f) * 2) = (uint w mod 32) * 2"
proof -
  have b: "0 \<le> uint w" "uint w < 65536" using uint_lt2p [of w] by simp_all
  have d9: "uint (drop_bit 9 w) = uint w div 512"
    by (simp add: drop_bit_eq_div uint_div_distrib)
  have "uint (drop_bit 9 w + 1980) = (uint w div 512 + 1980) mod 65536"
    by (simp only: uint_word_ariths d9) simp
  then show "uint (drop_bit 9 w + 1980) = uint w div 512 + 1980"
    using b by simp
  show "uint (drop_bit 5 w AND 0xf) = (uint w div 32) mod 16"
    by (simp add: uint_and drop_bit_eq_div uint_div_distrib int_and_15)
  show "uint (w AND 0x1f) = uint w mod 32"
    by (simp add: uint_and int_and_31)
  show "uint (drop_bit 11 w) = uint w div 2048"
    by (simp add: drop_bit_eq_div uint_div_distrib)
  show "uint (drop_bit 5 w AND 0x3f) = (uint w div 32) mod 64"
    by (simp add: uint_and drop_bit_eq_div uint_div_distrib int_and_63)
  show "uint ((w AND 0x1f) * 2) = (uint w mod 32) * 2"
    by (simp add: uint_word_ariths uint_and int_and_31)
qed

lemma uint_word_of_int_16: "0 \<le> x \<Longrightarrow> x < 65536 \<Longrightarrow> uint (word_of_int x :: uint16) = x"
  by (simp add: uint_word_of_int)

lemma unpack_date:
  fixes a b c :: int
  assumes "0 \<le> a" "a < 32" "0 \<le> b" "b < 16" "0 \<le> c"
  shows "(a + 32 * b + 512 * c) mod 32 = a"
    and "(a + 32 * b + 512 * c) div 32 mod 16 = b"
    and "(a + 32 * b + 512 * c) div 512 = c"
proof -
  show "(a + 32 * b + 512 * c) mod 32 = a"
    by (rule int_mod_pos_eq [where q = "b + 16 * c"]) (use assms in simp_all)
  have "(a + 32 * b + 512 * c) div 32 = b + 16 * c"
    by (rule int_div_pos_eq [where r = a]) (use assms in simp_all)
  moreover have "(b + 16 * c) mod 16 = b"
    by (rule int_mod_pos_eq [where q = c]) (use assms in simp_all)
  ultimately show "(a + 32 * b + 512 * c) div 32 mod 16 = b" by simp
  show "(a + 32 * b + 512 * c) div 512 = c"
    by (rule int_div_pos_eq [where r = "a + 32 * b"]) (use assms in simp_all)
qed

lemma unpack_time:
  fixes a b c :: int
  assumes "0 \<le> a" "a < 32" "0 \<le> b" "b < 64" "0 \<le> c"
  shows "(a + 32 * b + 2048 * c) mod 32 = a"
    and "(a + 32 * b + 2048 * c) div 32 mod 64 = b"
    and "(a + 32 * b + 2048 * c) div 2048 = c"
proof -
  show "(a + 32 * b + 2048 * c) mod 32 = a"
    by (rule int_mod_pos_eq [where q = "b + 64 * c"]) (use assms in simp_all)
  have "(a + 32 * b + 2048 * c) div 32 = b + 64 * c"
    by (rule int_div_pos_eq [where r = a]) (use assms in simp_all)
  moreover have "(b + 64 * c) mod 64 = b"
    by (rule int_mod_pos_eq [where q = c]) (use assms in simp_all)
  ultimately show "(a + 32 * b + 2048 * c) div 32 mod 64 = b" by simp
  show "(a + 32 * b + 2048 * c) div 2048 = c"
    by (rule int_div_pos_eq [where r = "a + 32 * b"]) (use assms in simp_all)
qed

lemma timeToMsDosTime_uint:
  assumes "valid_Time t" "1980 \<le> Year t" "Year t \<le> 2107"
  shows "uint (fst (timeToMsDosTime t)) = int (Day t) + 32 * int (Month t) + 512 * (Year t - 1980)"
    and "uint (snd (timeToMsDosTime t)) = int (Second t div 2) + 32 * int (Minute t) + 2048 * int (Hour t)"
proof -
  have d: "int (Day t) \<le> 31"
    using assms(1) daysIn_bounds [of "int (Month t)" "Year t"] by (simp add: valid_Time_def)
  let ?x = "int (Day t) + push_bit 5 (int (Month t)) + push_bit 9 (Year t - 1980)"
  have x: "?x = int (Day t) + 32 * int (Month t) + 512 * (Year t - 1980)"
    by (simp add: push_bit_eq_mult)
  have "0 \<le> ?x" "?x < 65536" unfolding x using assms d by (simp_all add: valid_Time_def)
  then have "uint (word_of_int ?x :: uint16) = ?x" by (rule uint_word_of_int_16)
  then show "uint (fst (timeToMsDosTime t)) = int (Day t) + 32 * int (Month t) + 512 * (Year t - 1980)"
    unfolding x [symmetric] by (simp only: timeToMsDosTime_def In_UTC_def Let_def fst_conv)
  let ?y = "int (Second t div 2) + push_bit 5 (int (Minute t)) + push_bit 11 (int (Hour t))"
  have y: "?y = int (Second t div 2) + 32 * int (Minute t) + 2048 * int (Hour t)"
    by (simp add: push_bit_eq_mult)
  have "0 \<le> ?y" "?y < 65536" unfolding y using assms(1) by (auto simp add: valid_Time_def)
  then have "uint (word_of_int ?y :: uint16) = ?y" by (rule uint_word_of_int_16)
  then show "uint (snd (timeToMsDosTime t)) = int (Second t div 2) + 32 * int (Minute t) + 2048 * int (Hour t)"
    unfolding y [symmetric] by (simp only: timeToMsDosTime_def In_UTC_def Let_def snd_conv)
qed

subsection \<open>The permission codecs\<close>

lemma ends_in_slash_conv:
  "(length n > 0 \<and> n ! (length n - 1) = CHR ''/'') = (n \<noteq> [] \<and> last n = CHR ''/'')"
  by (auto simp: last_conv_nth)

lemma Mode_eq:
  "Mode fh =
     (if drop_bit 8 (CreatorVersion fh) \<in> {creatorUnix, creatorMacOSX} then
        unixModeToFileMode (drop_bit 16 (ExternalAttrs fh))
      else if drop_bit 8 (CreatorVersion fh) \<in> {creatorNTFS, creatorVFAT, creatorFAT} then
        msdosModeToFileMode (ExternalAttrs fh)
      else 0)
     OR (if Name fh \<noteq> [] \<and> last (Name fh) = CHR ''/'' then ModeDir else 0)"
  unfolding Mode_def Let_def ends_in_slash_conv by simp

lemma ModeDir_neq_0: "ModeDir \<noteq> 0"
  by (simp add: ModeDir_def)

lemma or_ModeDir_and: "(m OR ModeDir) AND ModeDir = ModeDir"
  by (simp add: word_ao_dist)

lemma creator_distinct:
  "creatorNTFS \<noteq> creatorUnix" "creatorNTFS \<noteq> creatorMacOSX"
  "creatorVFAT \<noteq> creatorUnix" "creatorVFAT \<noteq> creatorMacOSX"
  "creatorFAT \<noteq> creatorUnix" "creatorFAT \<noteq> creatorMacOSX"
  by (simp_all add: creatorUnix_def creatorMacOSX_def creatorNTFS_def creatorVFAT_def creatorFAT_def)

lemma msdosModeToFileMode_cases:
  "msdosModeToFileMode m =
      (if m AND 0x10 \<noteq> 0
       then (if m AND 0x01 \<noteq> 0 then ModeDir OR 365 else ModeDir OR 511)
       else (if m AND 0x01 \<noteq> 0 then 292 else 438))"
  by (simp add: msdosModeToFileMode_def msdosDir_def msdosReadOnly_def ModeDir_def)

lemma and_511_take_bit: "(m :: uint32) AND 511 = take_bit 9 m"
  using take_bit_eq_mask [of 9 m] by (simp add: mask_numeral)

lemmas fm_simps = fileModeToUnixMode_def Let_def unix_mode_defs os_mode_defs word_ao_dist
  word_bw_assocs

lemma ModeDevice_not_char:
  assumes "mode AND ModeType = ModeDevice"
  shows "mode AND ModeCharDevice = 0"
proof -
  have "mode AND ModeCharDevice = (mode AND ModeType) AND ModeCharDevice"
    by (simp add: os_mode_defs word_bw_assocs)
  also have "\<dots> = 0"
    unfolding assms by (simp add: os_mode_defs)
  finally show ?thesis .
qed

lemma fileModeToUnixMode_perm: "fileModeToUnixMode mode AND 511 = mode AND 511"
  by (simp add: fm_simps)

lemma fileModeToUnixMode_special:
  "(fileModeToUnixMode mode AND sISUID \<noteq> 0) = (mode AND ModeSetuid \<noteq> 0)"
  "(fileModeToUnixMode mode AND sISGID \<noteq> 0) = (mode AND ModeSetgid \<noteq> 0)"
  "(fileModeToUnixMode mode AND sISVTX \<noteq> 0) = (mode AND ModeSticky \<noteq> 0)"
  by (simp_all add: fm_simps)

lemma fileModeToUnixMode_type:
  "fileModeToUnixMode mode AND sIFMT =
     (if mode AND ModeType = ModeDir then sIFDIR
      else if mode AND ModeType = ModeSymlink then sIFLNK
      else if mode AND ModeType = ModeNamedPipe then sIFIFO
      else if mode AND ModeType = ModeSocket then sIFSOCK
      else if mode AND ModeType = ModeDevice then sIFBLK
      else sIFREG)"
proof (cases "mode AND ModeType = ModeDevice")
  case True
  then show ?thesis
    using ModeDevice_not_char [OF True] by (simp add: fm_simps)
next
  case False
  then show ?thesis by (simp add: fm_simps)
qed

lemma fileModeToUnixMode_never_sIFCHR: "fileModeToUnixMode mode AND sIFMT \<noteq> sIFCHR"
  unfolding fileModeToUnixMode_type by (simp add: unix_mode_defs)

lemma fileModeToUnixMode_16: "take_bit 16 (fileModeToUnixMode mode) = fileModeToUnixMode mode"
  by (simp add: fileModeToUnixMode_def Let_def unix_mode_defs os_mode_defs and_511_take_bit)

lemma and_not_eq_0D:
  fixes m k :: "'a::len word"
  assumes "m AND NOT k = 0"
  shows "m AND k = m"
proof -
  have "m = (m AND k) OR (m AND NOT k)"
    by (auto simp add: bit_eq_iff bit_simps)
  then show ?thesis using assms by simp
qed

lemma and_single_bit:
  fixes m :: uint32
  assumes "n < 32"
  shows "(if m AND push_bit n 1 \<noteq> 0 then x OR push_bit n 1 else x) = x OR (m AND push_bit n 1)"
proof (cases "bit m n")
  case True
  then have "m AND push_bit n 1 = push_bit n 1"
    by (intro bit_word_eqI) (auto simp add: bit_simps)
  moreover have "push_bit n (1 :: uint32) \<noteq> 0"
    using assms by (simp add: bit_eq_iff bit_simps) (use assms in auto)
  ultimately show ?thesis by simp
next
  case False
  then have "m AND push_bit n 1 = 0"
    by (intro bit_word_eqI) (auto simp add: bit_simps)
  then show ?thesis by simp
qed

lemma unixMode_decode_special:
  "(if mode AND ModeSetgid \<noteq> 0 then x OR ModeSetgid else x) = x OR (mode AND ModeSetgid)"
  "(if mode AND ModeSetuid \<noteq> 0 then x OR ModeSetuid else x) = x OR (mode AND ModeSetuid)"
  "(if mode AND ModeSticky \<noteq> 0 then x OR ModeSticky else x) = x OR (mode AND ModeSticky)"
  unfolding ModeSetgid_def ModeSetuid_def ModeSticky_def by (rule and_single_bit, simp)+

lemma unixModeToFileMode_fileModeToUnixMode:
  "unixModeToFileMode (fileModeToUnixMode mode) =
     (mode AND 511)
       OR (if mode AND ModeType = ModeDir then ModeDir
           else if mode AND ModeType = ModeSymlink then ModeSymlink
           else if mode AND ModeType = ModeNamedPipe then ModeNamedPipe
           else if mode AND ModeType = ModeSocket then ModeSocket
           else if mode AND ModeType = ModeDevice then ModeDevice
           else 0)
       OR (mode AND ModeSetgid) OR (mode AND ModeSetuid) OR (mode AND ModeSticky)"
  unfolding unixModeToFileMode_def Let_def fileModeToUnixMode_perm fileModeToUnixMode_special
    fileModeToUnixMode_type unixMode_decode_special
  by (simp add: unix_mode_defs or.assoc)

lemma PermissionView_bits:
  assumes "is_PermissionView mode"
  shows "mode = (mode AND 511) OR (mode AND ModeType) OR (mode AND ModeSetgid)
    OR (mode AND ModeSetuid) OR (mode AND ModeSticky)"
proof -
  have "mode AND (ModeType OR ModeSetuid OR ModeSetgid OR ModeSticky OR 511) = mode"
    using assms by (intro and_not_eq_0D) (simp add: is_PermissionView_def)
  then show ?thesis
    by (simp add: word_ao_dist2 or.assoc or.commute or.left_commute)
qed

lemma unix_roundtrip:
  assumes "is_PermissionView mode" and "mode AND ModeType \<noteq> ModeDevice OR ModeCharDevice"
  shows "unixModeToFileMode (fileModeToUnixMode mode) = mode"
proof -
  have t: "mode AND ModeType \<in> {0, ModeDir, ModeSymlink, ModeNamedPipe, ModeSocket, ModeDevice}"
    using assms by (auto simp add: is_PermissionView_def)
  have "(if mode AND ModeType = ModeDir then ModeDir
           else if mode AND ModeType = ModeSymlink then ModeSymlink
           else if mode AND ModeType = ModeNamedPipe then ModeNamedPipe
           else if mode AND ModeType = ModeSocket then ModeSocket
           else if mode AND ModeType = ModeDevice then ModeDevice
           else 0) = mode AND ModeType"
    using t by auto
  then show ?thesis
    unfolding unixModeToFileMode_fileModeToUnixMode
    using PermissionView_bits [OF assms(1)] by simp
qed

text \<open>With the type mask of Go 1.10 every permission view is decoded as it was encoded.\<close>

lemmas fm110_simps = fileModeToUnixMode_go110_def Let_def unix_mode_defs os_mode_defs word_ao_dist
  word_bw_assocs

lemma go110_perm: "fileModeToUnixMode_go110 mode AND 511 = mode AND 511"
  by (simp add: fm110_simps)

lemma go110_special:
  "(fileModeToUnixMode_go110 mode AND sISUID \<noteq> 0) = (mode AND ModeSetuid \<noteq> 0)"
  "(fileModeToUnixMode_go110 mode AND sISGID \<noteq> 0) = (mode AND ModeSetgid \<noteq> 0)"
  "(fileModeToUnixMode_go110 mode AND sISVTX \<noteq> 0) = (mode AND ModeSticky \<noteq> 0)"
  by (simp_all add: fm110_simps)

lemma go110_type:
  "fileModeToUnixMode_go110 mode AND sIFMT =
     (if mode AND ModeType_go110 = ModeDir then sIFDIR
      else if mode AND ModeType_go110 = ModeSymlink then sIFLNK
      else if mode AND ModeType_go110 = ModeNamedPipe then sIFIFO
      else if mode AND ModeType_go110 = ModeSocket then sIFSOCK
      else if mode AND ModeType_go110 = ModeDevice then
        (if mode AND ModeCharDevice \<noteq> 0 then sIFCHR else sIFBLK)
      else sIFREG)"
  by (simp add: fm110_simps)

lemma go110_decode:
  "unixModeToFileMode (fileModeToUnixMode_go110 mode) =
     (mode AND 511)
       OR (if mode AND ModeType_go110 = ModeDir then ModeDir
           else if mode AND ModeType_go110 = ModeSymlink then ModeSymlink
           else if mode AND ModeType_go110 = ModeNamedPipe then ModeNamedPipe
           else if mode AND ModeType_go110 = ModeSocket then ModeSocket
           else if mode AND ModeType_go110 = ModeDevice then
             (if mode AND ModeCharDevice \<noteq> 0 then ModeDevice OR ModeCharDevice else ModeDevice)
           else 0)
       OR (mode AND ModeSetgid) OR (mode AND ModeSetuid) OR (mode AND ModeSticky)"
  unfolding unixModeToFileMode_def Let_def go110_perm go110_special go110_type
    unixMode_decode_special
  by (simp add: unix_mode_defs or.assoc)

lemma go110_roundtrip:
  assumes "is_PermissionView mode"
  shows "unixModeToFileMode (fileModeToUnixMode_go110 mode) = mode"
proof -
  have t: "mode AND ModeType_go110 = (mode AND ModeType) AND ModeType_go110"
    and c: "mode AND ModeCharDevice = (mode AND ModeType) AND ModeCharDevice"
    by (simp_all add: os_mode_defs word_bw_assocs)
  have v: "mode AND ModeType \<in> {0, ModeDir, ModeSymlink, ModeNamedPipe, ModeSocket, ModeDevice,
        ModeDevice OR ModeCharDevice}"
    using assms by (simp add: is_PermissionView_def)
  have "(if mode AND ModeType_go110 = ModeDir then ModeDir
           else if mode AND ModeType_go110 = ModeSymlink then ModeSymlink
           else if mode AND ModeType_go110 = ModeNamedPipe then ModeNamedPipe
           else if mode AND ModeType_go110 = ModeSocket then ModeSocket
           else if mode AND ModeType_go110 = ModeDevice then
             (if mode AND ModeCharDevice \<noteq> 0 then ModeDevice OR ModeCharDevice else ModeDevice)
           else 0) = mode AND ModeType"
    unfolding t c using v by (auto simp add: os_mode_defs)
  then show ?thesis
    unfolding go110_decode using PermissionView_bits [OF assms] by simp
qed

lemma SetMode_ExternalAttrs:
  "ExternalAttrs (SetMode fh mode) =
     push_bit 16 (fileModeToUnixMode mode)
       OR (if mode AND ModeDir \<noteq> 0 then msdosDir else 0)
       OR (if mode AND 128 = 0 then msdosReadOnly else 0)"
  by (simp add: SetMode_def Let_def or.assoc)

lemma SetMode_CreatorVersion:
  "CreatorVersion (SetMode fh mode) = (CreatorVersion fh AND 0xff) OR 0x300"
  by (simp add: SetMode_def Let_def creatorUnix_def)

lemma and_255_take_bit: "(m :: uint16) AND 255 = take_bit 8 m"
  using take_bit_eq_mask [of 8 m] by (simp add: mask_numeral)

lemma drop_push_16: "drop_bit 16 (push_bit 16 x :: uint32) = take_bit 16 x"
  by (auto simp add: bit_eq_iff bit_simps)

lemma push16_and: "push_bit 16 (x :: uint32) AND 16 = 0" "push_bit 16 (x :: uint32) AND 1 = 0"
  using and_exp_eq_0_iff_not_bit [of "push_bit 16 x" 4] and_exp_eq_0_iff_not_bit [of "push_bit 16 x" 0]
  by (simp_all add: bit_simps)

lemma SetMode_Name: "Name (SetMode fh mode) = Name fh"
  by (simp add: SetMode_def Let_def)

lemma SetMode_unix_word: "drop_bit 16 (ExternalAttrs (SetMode fh mode)) = fileModeToUnixMode mode"
  by (simp add: SetMode_ExternalAttrs msdosDir_def msdosReadOnly_def drop_push_16
      fileModeToUnixMode_16)

lemma SetMode_creator: "drop_bit 8 (CreatorVersion (SetMode fh mode)) = creatorUnix"
  by (simp add: SetMode_CreatorVersion and_255_take_bit drop_bit_take_bit creatorUnix_def)

lemma Mode_SetMode:
  "Mode (SetMode fh mode) =
     unixModeToFileMode (fileModeToUnixMode mode)
       OR (if Name fh \<noteq> [] \<and> last (Name fh) = CHR ''/'' then ModeDir else 0)"
  by (simp add: Mode_eq SetMode_creator SetMode_unix_word SetMode_Name)

lemma Mode_SetMode_roundtrip:
  assumes "is_PermissionView mode" and "mode AND ModeType \<noteq> ModeDevice OR ModeCharDevice"
    and "\<not> (Name fh \<noteq> [] \<and> last (Name fh) = CHR ''/'')"
  shows "Mode (SetMode fh mode) = mode"
  using assms(3) unix_roundtrip [OF assms(1,2)] by (auto simp add: Mode_SetMode)

lemma SetMode_fields:
  "drop_bit 8 (CreatorVersion (SetMode fh mode)) = creatorUnix
   \<and> drop_bit 16 (ExternalAttrs (SetMode fh mode)) = fileModeToUnixMode mode
   \<and> fileModeToUnixMode mode AND 511 = mode AND 511
   \<and> (fileModeToUnixMode mode AND sISUID \<noteq> 0) = (mode AND ModeSetuid \<noteq> 0)
   \<and> (fileModeToUnixMode mode AND sISGID \<noteq> 0) = (mode AND ModeSetgid \<noteq> 0)
   \<and> (fileModeToUnixMode mode AND sISVTX \<noteq> 0) = (mode AND ModeSticky \<noteq> 0)
   \<and> fileModeToUnixMode mode AND NOT (sIFMT OR sISUID OR sISGID OR sISVTX OR 511) = 0
   \<and> (ExternalAttrs (SetMode fh mode) AND msdosDir \<noteq> 0) = IsDir mode
   \<and> (ExternalAttrs (SetMode fh mode) AND msdosReadOnly \<noteq> 0) = (mode AND 128 = 0)"
proof -
  have dir: "(ExternalAttrs (SetMode fh mode) AND msdosDir \<noteq> 0) = IsDir mode"
    by (simp add: SetMode_ExternalAttrs msdosDir_def msdosReadOnly_def IsDir_def word_ao_dist
        push16_and)
  have ro: "(ExternalAttrs (SetMode fh mode) AND msdosReadOnly \<noteq> 0) = (mode AND 128 = 0)"
    by (simp add: SetMode_ExternalAttrs msdosDir_def msdosReadOnly_def word_ao_dist push16_and)
  have rest: "fileModeToUnixMode mode AND NOT (sIFMT OR sISUID OR sISGID OR sISVTX OR 511) = 0"
    by (simp add: fm_simps)
  show ?thesis
    using dir ro rest
    by (simp add: SetMode_creator SetMode_unix_word fileModeToUnixMode_perm
        fileModeToUnixMode_special)
qed

lemma SetMode_type_nibble:
  assumes "mode AND ModeType \<in> {0, ModeDir, ModeSymlink, ModeNamedPipe, ModeSocket, ModeDevice}"
  shows "drop_bit 16 (ExternalAttrs (SetMode fh mode)) AND sIFMT =
     (if mode AND ModeType = ModeDir then sIFDIR
      else if mode AND ModeType = ModeSymlink then sIFLNK
      else if mode AND ModeType = ModeNamedPipe then sIFIFO
      else if mode AND ModeType = ModeSocket then sIFSOCK
      else if mode AND ModeType = ModeDevice then sIFBLK
      else sIFREG)"
  by (simp add: SetMode_unix_word fileModeToUnixMode_type)

lemma SetMode_never_sIFCHR:
  "drop_bit 16 (ExternalAttrs (SetMode fh mode)) AND sIFMT \<noteq> sIFCHR"
  by (simp only: SetMode_unix_word fileModeToUnixMode_never_sIFCHR not_False_eq_True)

subsection \<open>The adapter\<close>

lemma SetMode_sizes:
  "UncompressedSize64 (SetMode fh mode) = UncompressedSize64 fh"
  "UncompressedSize (SetMode fh mode) = UncompressedSize fh"
  by (simp_all add: SetMode_def Let_def)

lemma SetModTime_sizes:
  "UncompressedSize64 (SetModTime fh t) = UncompressedSize64 fh"
  "UncompressedSize (SetModTime fh t) = UncompressedSize fh"
  by (simp_all add: SetModTime_def split: prod.split)

lemma FileInfoHeader_sizes:
  "snd (FileInfoHeader fi) = None"
  "UncompressedSize64 (fst (FileInfoHeader fi)) = fi_Size fi"
  "UncompressedSize (fst (FileInfoHeader fi)) =
     (if fi_Size fi > uint32max then uint32max_32 else ucast (fi_Size fi))"
  by (simp_all add: FileInfoHeader_def Let_def SetMode_sizes SetModTime_sizes)

lemma path_Base_segment:
  assumes "b \<noteq> []" and "CHR ''/'' \<notin> set b"
  shows "path_Base (d @ CHR ''/'' # b @ replicate n (CHR ''/'')) = b"
    and "path_Base (b @ replicate n (CHR ''/'')) = b"
proof -
  let ?sl = "\<lambda>c. c = CHR ''/''"
  let ?ns = "\<lambda>c. c \<noteq> CHR ''/''"
  have drop: "dropWhile ?sl (replicate n (CHR ''/'') @ xs) = dropWhile ?sl xs" for xs
    by (induction n) simp_all
  have tk: "takeWhile ?ns (rev b @ xs) = rev b @ takeWhile ?ns xs" for xs
    by (rule takeWhile_append2) (use assms(2) in auto)
  have tk0: "takeWhile ?ns (rev b) = rev b"
    using assms(2) by (auto simp add: takeWhile_eq_all_conv)
  have hd: "dropWhile ?sl (rev b @ xs) = rev b @ xs" for xs
    using assms by (cases b rule: rev_cases) auto
  have hd0: "dropWhile ?sl (rev b) = rev b"
    using hd [of "[]"] by simp
  show "path_Base (d @ CHR ''/'' # b @ replicate n (CHR ''/'')) = b"
    using assms(1) by (simp add: path_Base_def Let_def drop tk hd)
  show "path_Base (b @ replicate n (CHR ''/'')) = b"
    using assms(1) by (simp add: path_Base_def Let_def drop tk0 hd0 drop [of "[]", simplified])
qed

subsection \<open>C1: the size promotion rule\<close>

text \<open>
  C1. For every pair of 64-bit sizes, \<open>isZip64\<close> is true if and only if the compressed size
  or the uncompressed size, read as an unsigned number, is greater than \<open>0xFFFFFFFF\<close>
  (\<open>4294967295 = 2^32 - 1\<close>). In particular it is false when both sizes are exactly
  \<open>0xFFFFFFFF\<close> and true as soon as one of them is \<open>0x100000000\<close>.
\<close>

theorem isZip64_iff:
  "isZip64 fh
     = (unat (CompressedSize64 fh) > 0xFFFFFFFF \<or> unat (UncompressedSize64 fh) > 0xFFFFFFFF)
   \<and> isZip64 (fh\<lparr>CompressedSize64 := c, UncompressedSize64 := u\<rparr>)
     = (unat c > 0xFFFFFFFF \<or> unat u > 0xFFFFFFFF)
   \<and> isZip64 (fh\<lparr>CompressedSize64 := 0xFFFFFFFF, UncompressedSize64 := 0xFFFFFFFF\<rparr>) = False
   \<and> isZip64 (fh\<lparr>CompressedSize64 := 0x100000000, UncompressedSize64 := u\<rparr>) = True
   \<and> isZip64 (fh\<lparr>CompressedSize64 := c, UncompressedSize64 := 0x100000000\<rparr>) = True"
  by (simp add: isZip64_def uint32max_def word_less_nat_alt)

subsection \<open>C2: the timestamp round trip\<close>

text \<open>
  C2. For every calendar timestamp \<open>t\<close> (a valid UTC date and time of day) whose seconds are
  even, whose nanoseconds are zero and whose year lies between 1980 and 2107, decoding the
  pair that \<open>timeToMsDosTime\<close> produces gives \<open>t\<close> back:
  \<open>msDosTimeToTime\<close> applied to the packed date and time of \<open>t\<close> equals \<open>t\<close>.
\<close>

theorem msDosTime_roundtrip:
  assumes "valid_Time t" "even (Second t)" "Nanosecond t = 0" "1980 \<le> Year t" "Year t \<le> 2107"
  shows "(case timeToMsDosTime t of (fDate, fTime) \<Rightarrow> msDosTimeToTime fDate fTime) = t"
proof -
  obtain fDate fTime where e: "timeToMsDosTime t = (fDate, fTime)" by (cases "timeToMsDosTime t")
  have v: "1 \<le> Month t" "Month t \<le> 12" "1 \<le> Day t" "int (Day t) \<le> daysIn (int (Month t)) (Year t)"
    "Hour t < 24" "Minute t < 60" "Second t < 60"
    using assms(1) by (simp_all add: valid_Time_def)
  have d: "int (Day t) \<le> 31"
    using v(4) daysIn_bounds [of "int (Month t)" "Year t"] by simp
  have ud: "uint fDate = int (Day t) + 32 * int (Month t) + 512 * (Year t - 1980)"
    and ut: "uint fTime = int (Second t div 2) + 32 * int (Minute t) + 2048 * int (Hour t)"
    using timeToMsDosTime_uint [OF assms(1,4,5)] e by simp_all
  have y: "uint (drop_bit 9 fDate + 1980) = Year t"
    unfolding uint_fields ud using v d assms(4,5) by (subst unpack_date) simp_all
  have mo: "uint (drop_bit 5 fDate AND 0xf) = int (Month t)"
    unfolding uint_fields ud using v d assms(4,5) by (subst unpack_date) simp_all
  have dy: "uint (fDate AND 0x1f) = int (Day t)"
    unfolding uint_fields ud using v d assms(4,5) by (subst unpack_date) simp_all
  have h: "uint (drop_bit 11 fTime) = int (Hour t)"
    unfolding uint_fields ut using v by (subst unpack_time) simp_all
  have mi: "uint (drop_bit 5 fTime AND 0x3f) = int (Minute t)"
    unfolding uint_fields ut using v by (subst unpack_time) simp_all
  have "uint ((fTime AND 0x1f) * 2) = int (Second t div 2) * 2"
    unfolding uint_fields ut using v by (subst unpack_time) simp_all
  then have se: "uint ((fTime AND 0x1f) * 2) = int (Second t)"
    using assms(2) by (elim evenE) simp
  have "msDosTimeToTime fDate fTime =
      \<lparr>Year = Year t, Month = nat (int (Month t)), Day = nat (int (Day t)),
        Hour = nat (int (Hour t)), Minute = nat (int (Minute t)), Second = nat (int (Second t)),
        Nanosecond = nat 0\<rparr>"
    unfolding msDosTimeToTime_def y mo dy h mi se
    using v by (intro time_Date_id) simp_all
  then show ?thesis using assms(3) by (simp add: e)
qed

theorem msDosTime_roundtrip_witness:
  "(let t = \<lparr>Year = 2009, Month = 11, Day = 10, Hour = 23, Minute = 45, Second = 58,
              Nanosecond = 0\<rparr>
    in valid_Time t \<and> even (Second t) \<and> Nanosecond t = 0 \<and> 1980 \<le> Year t \<and> Year t \<le> 2107
       \<and> timeToMsDosTime t = (0x3B6A, 0xBDBD)
       \<and> msDosTimeToTime 0x3B6A 0xBDBD = t)"
  using msDosTime_roundtrip [of "\<lparr>Year = 2009, Month = 11, Day = 10, Hour = 23, Minute = 45,
    Second = 58, Nanosecond = 0\<rparr>"]
  by (simp add: valid_Time_def daysIn_def timeToMsDosTime_def In_UTC_def)

subsection \<open>C3: the permission round trip on the Unix path\<close>

text \<open>
  C3. Encoding a permission view with \<open>SetMode\<close> and decoding the result with \<open>Mode\<close> (the
  creator is then Unix, and the name does not end in a slash) should reproduce the view.
  It does for the regular, directory, symlink, named-pipe, socket and block-device views
  (\<open>Mode_SetMode_roundtrip\<close>), but not for a character device: \<open>mode AND ModeType\<close> is
  then \<open>ModeDevice OR ModeCharDevice\<close>, which no case of the switch in
  \<open>fileModeToUnixMode\<close> equals, so the type nibble is \<open>sIFREG\<close> and the branch that yields
  \<open>sIFCHR\<close> is never taken (\<open>fileModeToUnixMode_never_sIFCHR\<close>). With the mask of Go
  1.10, which has no \<open>ModeCharDevice\<close>, that branch is taken and all seven views come
  back (\<open>go110_roundtrip\<close>). For the character device with permission \<^verbatim>\<open>0644\<close> (420)
  the view is packed as \<open>0x81A40000\<close> and decoded as the regular file \<^verbatim>\<open>0644\<close>.
\<close>

theorem SetMode_Mode_chardev:
  "is_PermissionView (ModeDevice OR ModeCharDevice OR 420)
   \<and> fileModeToUnixMode (ModeDevice OR ModeCharDevice OR 420) = sIFREG OR 420
   \<and> ExternalAttrs (SetMode (zero_FileHeader\<lparr>Name := ''tty''\<rparr>) (ModeDevice OR ModeCharDevice OR 420))
       = 0x81A40000
   \<and> Mode (SetMode (zero_FileHeader\<lparr>Name := ''tty''\<rparr>) (ModeDevice OR ModeCharDevice OR 420)) = 420
   \<and> Mode (SetMode (zero_FileHeader\<lparr>Name := ''tty''\<rparr>) (ModeDevice OR ModeCharDevice OR 420))
       \<noteq> ModeDevice OR ModeCharDevice OR 420"
  by (simp add: Mode_SetMode SetMode_ExternalAttrs zero_FileHeader_def is_PermissionView_def
      fileModeToUnixMode_def unixModeToFileMode_def Let_def os_mode_defs unix_mode_defs
      msdosDir_def msdosReadOnly_def)

subsection \<open>C4: a name that ends in a slash is a directory\<close>

text \<open>
  C4. For every header whose name is not empty and ends in \<^verbatim>\<open>/\<close>, \<open>Mode\<close> returns a mode
  with the directory bit \<open>ModeDir\<close> set, whatever \<open>ExternalAttrs\<close> and \<open>CreatorVersion\<close>
  hold (also a creator that the switch does not know).
\<close>

theorem Mode_dir_by_name:
  assumes "Name fh \<noteq> []" and "last (Name fh) = CHR ''/''"
  shows "Mode fh AND ModeDir \<noteq> 0 \<and> IsDir (Mode fh) \<and> headerFileInfo_IsDir fh"
  using assms
  by (simp add: Mode_eq or_ModeDir_and ModeDir_neq_0 IsDir_def
      headerFileInfo_IsDir_def headerFileInfo_Mode_def)

theorem Mode_dir_by_name_witness:
  "(let fh = zero_FileHeader\<lparr>Name := ''docs/'', CreatorVersion := 0x6314,
              ExternalAttrs := 0x81A40000\<rparr>
    in Name fh \<noteq> [] \<and> last (Name fh) = CHR ''/'' \<and> Mode fh = ModeDir \<and> IsDir (Mode fh))"
  using Mode_dir_by_name [of "zero_FileHeader\<lparr>Name := ''docs/'', CreatorVersion := 0x6314,
    ExternalAttrs := 0x81A40000\<rparr>"]
  by (simp add: zero_FileHeader_def Mode_eq creatorUnix_def creatorMacOSX_def creatorNTFS_def
      creatorVFAT_def creatorFAT_def drop_bit_eq_div)

subsection \<open>C5: SetMode writes both encodings\<close>

text \<open>
  C5. For every mode, \<open>SetMode\<close> should put the Unix mode word of the mode, with the type
  nibble of its entry type, in the high 16 bits of \<open>ExternalAttrs\<close>. For a character device
  it does not: for \<^verbatim>\<open>ModeDevice | ModeCharDevice | 0644\<close> (420) and every header, the creator
  byte is \<open>creatorUnix\<close> and the DOS bits are clear, as they should be, but the mode word is
  \<open>sIFREG OR 420\<close>: its type nibble is \<open>sIFREG\<close>, that of a regular file, and not
  \<open>sIFCHR\<close>, and \<open>ExternalAttrs\<close> is \<open>0x81A40000\<close>. No mode at all is packed with
  \<open>sIFCHR\<close> (\<open>SetMode_never_sIFCHR\<close>). For the six other entry types the type nibble
  is the one of the type (\<open>SetMode_type_nibble\<close>), and for every mode the creator byte, the
  permission, setuid, setgid and sticky bits and the two DOS bits are as the claim says
  (\<open>SetMode_fields\<close>).
\<close>

theorem SetMode_chardev_word:
  "drop_bit 8 (CreatorVersion (SetMode fh (ModeDevice OR ModeCharDevice OR 420))) = creatorUnix
   \<and> drop_bit 16 (ExternalAttrs (SetMode fh (ModeDevice OR ModeCharDevice OR 420))) = sIFREG OR 420
   \<and> drop_bit 16 (ExternalAttrs (SetMode fh (ModeDevice OR ModeCharDevice OR 420))) AND sIFMT = sIFREG
   \<and> drop_bit 16 (ExternalAttrs (SetMode fh (ModeDevice OR ModeCharDevice OR 420))) AND sIFMT
       \<noteq> sIFCHR
   \<and> ExternalAttrs (SetMode fh (ModeDevice OR ModeCharDevice OR 420)) = 0x81A40000"
proof -
  have w: "fileModeToUnixMode (ModeDevice OR ModeCharDevice OR 420) = sIFREG OR 420"
    by (simp add: fileModeToUnixMode_def Let_def os_mode_defs unix_mode_defs)
  have e: "ExternalAttrs (SetMode fh (ModeDevice OR ModeCharDevice OR 420)) = 0x81A40000"
    by (simp add: SetMode_ExternalAttrs w msdosDir_def msdosReadOnly_def)
      (simp add: os_mode_defs unix_mode_defs)
  show ?thesis
    by (simp add: SetMode_creator SetMode_unix_word w e) (simp add: unix_mode_defs)
qed

subsection \<open>C6: decoding MS-DOS attributes\<close>

text \<open>
  C6. For every header whose creator (the high byte of \<open>CreatorVersion\<close>) is NTFS (11),
  VFAT (14) or FAT (0) and whose name does not end in \<^verbatim>\<open>/\<close>, \<open>Mode\<close> reads \<open>ExternalAttrs\<close> as
  MS-DOS attributes: with the directory bit \<open>0x10\<close> the base is \<open>ModeDir\<close> with permission
  \<^verbatim>\<open>0777\<close> (511), otherwise a regular file with permission \<^verbatim>\<open>0666\<close> (438); with the
  read-only bit \<open>0x01\<close> the write bits \<^verbatim>\<open>0222\<close> (146) are cleared from that base, which gives
  \<^verbatim>\<open>0555\<close> (365) for a directory and \<^verbatim>\<open>0444\<close> (292) for a file.
\<close>

theorem Mode_msdos:
  assumes "drop_bit 8 (CreatorVersion fh) \<in> {creatorNTFS, creatorVFAT, creatorFAT}"
    and "\<not> (Name fh \<noteq> [] \<and> last (Name fh) = CHR ''/'')"
  shows "Mode fh =
      (if ExternalAttrs fh AND 0x10 \<noteq> 0 then ModeDir OR 511 else 438)
        AND (if ExternalAttrs fh AND 0x01 \<noteq> 0 then NOT 146 else - 1)
   \<and> Mode fh =
      (if ExternalAttrs fh AND 0x10 \<noteq> 0
       then (if ExternalAttrs fh AND 0x01 \<noteq> 0 then ModeDir OR 365 else ModeDir OR 511)
       else (if ExternalAttrs fh AND 0x01 \<noteq> 0 then 292 else 438))"
proof -
  have "Mode fh = msdosModeToFileMode (ExternalAttrs fh)"
    using assms creator_distinct by (auto simp add: Mode_eq)
  then show ?thesis
    by (simp add: msdosModeToFileMode_cases) (simp add: ModeDir_def)
qed

theorem Mode_msdos_witness:
  "(let fh = zero_FileHeader\<lparr>Name := ''docs'', CreatorVersion := 0x0B14, ExternalAttrs := 0x11\<rparr>
    in drop_bit 8 (CreatorVersion fh) \<in> {creatorNTFS, creatorVFAT, creatorFAT}
       \<and> \<not> (Name fh \<noteq> [] \<and> last (Name fh) = CHR ''/'')
       \<and> Mode fh = ModeDir OR 365)"
  using Mode_msdos [of "zero_FileHeader\<lparr>Name := ''docs'', CreatorVersion := 0x0B14,
    ExternalAttrs := 0x11\<rparr>"]
  by (simp add: zero_FileHeader_def creatorNTFS_def drop_bit_eq_div ModeDir_def)

subsection \<open>C7: the worked example of the timestamp codec\<close>

text \<open>
  The example as the specification gives it: the packed date \<open>0x4A21\<close> with the packed time
  \<open>0x5600\<close> is not 2005-01-01 10:48:00, and 2005-01-01 10:48:00 is not packed as
  \<open>(0x4A21, 0x5600)\<close>.
\<close>

theorem msDosTime_example_counterexample:
  "msDosTimeToTime 0x4A21 0x5600
     \<noteq> \<lparr>Year = 2005, Month = 1, Day = 1, Hour = 10, Minute = 48, Second = 0, Nanosecond = 0\<rparr>
   \<and> timeToMsDosTime
       \<lparr>Year = 2005, Month = 1, Day = 1, Hour = 10, Minute = 48, Second = 0, Nanosecond = 0\<rparr>
     \<noteq> (0x4A21, 0x5600)"
  by (simp add: msDosTimeToTime_def time_Date_id daysIn_def timeToMsDosTime_def In_UTC_def)

text \<open>
  C7 (amended). The packed date \<open>0x4A21\<close> holds the year field 37, so with the packed time
  \<open>0x5600\<close> it decodes to 2017-01-01 10:48:00 UTC, and encoding that timestamp gives
  \<open>(0x4A21, 0x5600)\<close> back. The timestamp 2005-01-01 10:48:00 UTC is the pair
  \<open>(0x3221, 0x5600)\<close>, in both directions.
\<close>

theorem msDosTime_example:
  "msDosTimeToTime 0x4A21 0x5600
     = \<lparr>Year = 2017, Month = 1, Day = 1, Hour = 10, Minute = 48, Second = 0, Nanosecond = 0\<rparr>
   \<and> timeToMsDosTime
       \<lparr>Year = 2017, Month = 1, Day = 1, Hour = 10, Minute = 48, Second = 0, Nanosecond = 0\<rparr>
     = (0x4A21, 0x5600)
   \<and> timeToMsDosTime
       \<lparr>Year = 2005, Month = 1, Day = 1, Hour = 10, Minute = 48, Second = 0, Nanosecond = 0\<rparr>
     = (0x3221, 0x5600)
   \<and> msDosTimeToTime 0x3221 0x5600
     = \<lparr>Year = 2005, Month = 1, Day = 1, Hour = 10, Minute = 48, Second = 0, Nanosecond = 0\<rparr>"
  by (simp add: msDosTimeToTime_def time_Date_id daysIn_def timeToMsDosTime_def In_UTC_def)

subsection \<open>C8: the sizes set by FileInfoHeader\<close>

text \<open>
  C8. For every file view, \<open>FileInfoHeader\<close> returns no error, and copies the 64 bits of
  the view's size into \<open>UncompressedSize64\<close>. The legacy field \<open>UncompressedSize\<close> is
  \<open>0xFFFFFFFF\<close> when that 64-bit value exceeds \<open>2^32 - 1\<close> and the value itself otherwise,
  never a truncation. For a size that is not negative, the size, read as a signed number,
  is the value of \<open>UncompressedSize64\<close>, and the legacy field is \<open>0xFFFFFFFF\<close> when the size
  exceeds \<open>2^32 - 1\<close> and the size itself otherwise.
\<close>

theorem FileInfoHeader_size:
  "snd (FileInfoHeader fi) = None
   \<and> UncompressedSize64 (fst (FileInfoHeader fi)) = fi_Size fi
   \<and> (if uint (fi_Size fi) > 0xFFFFFFFF
       then UncompressedSize (fst (FileInfoHeader fi)) = 0xFFFFFFFF
       else uint (UncompressedSize (fst (FileInfoHeader fi))) = uint (fi_Size fi))
   \<and> (0 \<le> sint (fi_Size fi) \<longrightarrow>
        uint (UncompressedSize64 (fst (FileInfoHeader fi))) = sint (fi_Size fi)
        \<and> (if sint (fi_Size fi) > 0xFFFFFFFF
            then UncompressedSize (fst (FileInfoHeader fi)) = 0xFFFFFFFF
            else uint (UncompressedSize (fst (FileInfoHeader fi))) = sint (fi_Size fi)))"
proof -
  have lt: "(fi_Size fi > uint32max) = (uint (fi_Size fi) > 0xFFFFFFFF)"
    by (simp add: uint32max_def word_less_def)
  have small: "uint (ucast (fi_Size fi) :: uint32) = uint (fi_Size fi)"
    if "\<not> uint (fi_Size fi) > 0xFFFFFFFF"
    using that by (simp add: unsigned_ucast_eq take_bit_eq_mod)
  have s: "sint (fi_Size fi) = uint (fi_Size fi)" if "0 \<le> sint (fi_Size fi)"
  proof -
    have "sint (fi_Size fi) < 2 ^ 64" using sint_lt [of "fi_Size fi"] by simp
    with that have "take_bit 64 (sint (fi_Size fi)) = sint (fi_Size fi)"
      by (simp add: take_bit_int_eq_self)
    then show ?thesis using uint_sint [of "fi_Size fi"] by simp
  qed
  show ?thesis
    using small s by (simp add: FileInfoHeader_sizes lt uint32max_32_def)
qed

theorem FileInfoHeader_size_witness:
  "(let fi = \<lparr>fi_Name = ''big.bin'', fi_Size = 0x100000005, fi_Mode = 420,
              fi_ModTime = \<lparr>Year = 2009, Month = 11, Day = 10, Hour = 23, Minute = 45,
                Second = 58, Nanosecond = 0\<rparr>\<rparr>
    in 0 \<le> sint (fi_Size fi)
       \<and> snd (FileInfoHeader fi) = None
       \<and> UncompressedSize64 (fst (FileInfoHeader fi)) = 0x100000005
       \<and> UncompressedSize (fst (FileInfoHeader fi)) = 0xFFFFFFFF)
   \<and> (let fi = \<lparr>fi_Name = ''small.txt'', fi_Size = 1234, fi_Mode = 420,
                fi_ModTime = \<lparr>Year = 2009, Month = 11, Day = 10, Hour = 23, Minute = 45,
                  Second = 58, Nanosecond = 0\<rparr>\<rparr>
      in 0 \<le> sint (fi_Size fi)
         \<and> snd (FileInfoHeader fi) = None
         \<and> UncompressedSize64 (fst (FileInfoHeader fi)) = 1234
         \<and> uint (UncompressedSize (fst (FileInfoHeader fi))) = 1234)"
  using
    FileInfoHeader_size [of "\<lparr>fi_Name = ''big.bin'', fi_Size = 0x100000005, fi_Mode = 420,
      fi_ModTime = \<lparr>Year = 2009, Month = 11, Day = 10, Hour = 23, Minute = 45,
        Second = 58, Nanosecond = 0\<rparr>\<rparr>"]
    FileInfoHeader_size [of "\<lparr>fi_Name = ''small.txt'', fi_Size = 1234, fi_Mode = 420,
      fi_ModTime = \<lparr>Year = 2009, Month = 11, Day = 10, Hour = 23, Minute = 45,
        Second = 58, Nanosecond = 0\<rparr>\<rparr>"]
  by simp

subsection \<open>C9: the name and the size of the generic view\<close>

text \<open>
  C9. For every header, the view \<open>FileInfo\<close> reports as name \<^verbatim>\<open>path.Base\<close> of the header's
  name: the last segment of the path, whether or not directories precede it and slashes
  follow it. As size it reports \<open>UncompressedSize64\<close> when that field is not zero, and the
  legacy field \<open>UncompressedSize\<close>, extended with zeros, when \<open>UncompressedSize64\<close> is zero.
\<close>

theorem FileInfo_name_size:
  "fi_Name (FileInfo fh) = path_Base (Name fh)
   \<and> (b \<noteq> [] \<and> CHR ''/'' \<notin> set b \<and> Name fh = d @ ''/'' @ b @ replicate n (CHR ''/'')
        \<longrightarrow> fi_Name (FileInfo fh) = b)
   \<and> (b \<noteq> [] \<and> CHR ''/'' \<notin> set b \<and> Name fh = b @ replicate n (CHR ''/'')
        \<longrightarrow> fi_Name (FileInfo fh) = b)
   \<and> (UncompressedSize64 fh \<noteq> 0 \<longrightarrow> fi_Size (FileInfo fh) = UncompressedSize64 fh)
   \<and> (UncompressedSize64 fh = 0 \<longrightarrow>
        fi_Size (FileInfo fh) = ucast (UncompressedSize fh)
        \<and> sint (fi_Size (FileInfo fh)) = uint (UncompressedSize fh))"
proof -
  have "sint (ucast (UncompressedSize fh) :: int64) = uint (UncompressedSize fh)"
  proof -
    have "(0::int) \<le> uint (UncompressedSize fh)" by simp
    then have "- (2 ^ 63) \<le> uint (UncompressedSize fh)"
      by (rule order_trans [rotated]) simp
    moreover have "uint (UncompressedSize fh) < 2 ^ 63"
      using uint_lt2p [of "UncompressedSize fh"] by simp
    ultimately have "signed_take_bit 63 (uint (UncompressedSize fh)) = uint (UncompressedSize fh)"
      by (rule signed_take_bit_int_eq_self)
    then show ?thesis by (simp add: signed_ucast_eq)
  qed
  then show ?thesis
    by (auto simp add: FileInfo_def headerFileInfo_Name_def headerFileInfo_Size_def
        path_Base_segment word_greater_zero_iff)
qed

theorem FileInfo_name_size_witness:
  "(let fh = zero_FileHeader\<lparr>Name := ''docs/img/logo.png'', UncompressedSize := 7,
              UncompressedSize64 := 5000000000\<rparr>
    in ''logo.png'' \<noteq> [] \<and> CHR ''/'' \<notin> set ''logo.png''
       \<and> Name fh = ''docs/img'' @ ''/'' @ ''logo.png'' @ replicate 0 (CHR ''/'')
       \<and> UncompressedSize64 fh \<noteq> 0
       \<and> fi_Name (FileInfo fh) = ''logo.png''
       \<and> fi_Size (FileInfo fh) = 5000000000)
   \<and> (let fh = zero_FileHeader\<lparr>Name := ''logo.png'', UncompressedSize := 7\<rparr>
      in ''logo.png'' \<noteq> [] \<and> CHR ''/'' \<notin> set ''logo.png''
         \<and> Name fh = ''logo.png'' @ replicate 0 (CHR ''/'')
         \<and> UncompressedSize64 fh = 0
         \<and> fi_Name (FileInfo fh) = ''logo.png''
         \<and> fi_Size (FileInfo fh) = 7)"
  using FileInfo_name_size [of "zero_FileHeader\<lparr>Name := ''docs/img/logo.png'', UncompressedSize := 7,
              UncompressedSize64 := 5000000000\<rparr>" "''logo.png''" "''docs/img''" 0]
    FileInfo_name_size [of "zero_FileHeader\<lparr>Name := ''logo.png'', UncompressedSize := 7\<rparr>"
      "''logo.png''" "[]" 0]
  by (simp add: zero_FileHeader_def path_Base_def)

subsection \<open>C10: what SetMode leaves alone\<close>

text \<open>
  C10. For every header and every mode, \<open>SetMode\<close> changes no field but
  \<open>CreatorVersion\<close> and \<open>ExternalAttrs\<close>: the result is the header with these two fields
  replaced, so the name, the sizes, the timestamps and every other field are those of the
  header. In \<open>CreatorVersion\<close> only the high byte is written: the low byte is kept.
\<close>

theorem SetMode_frame:
  "SetMode fh mode =
     fh\<lparr>CreatorVersion := CreatorVersion (SetMode fh mode),
        ExternalAttrs := ExternalAttrs (SetMode fh mode)\<rparr>
   \<and> CreatorVersion (SetMode fh mode) AND 0xff = CreatorVersion fh AND 0xff
   \<and> Name (SetMode fh mode) = Name fh
   \<and> ReaderVersion (SetMode fh mode) = ReaderVersion fh
   \<and> Flags (SetMode fh mode) = Flags fh
   \<and> Method (SetMode fh mode) = Method fh
   \<and> ModifiedTime (SetMode fh mode) = ModifiedTime fh
   \<and> ModifiedDate (SetMode fh mode) = ModifiedDate fh
   \<and> CRC32 (SetMode fh mode) = CRC32 fh
   \<and> CompressedSize (SetMode fh mode) = CompressedSize fh
   \<and> UncompressedSize (SetMode fh mode) = UncompressedSize fh
   \<and> CompressedSize64 (SetMode fh mode) = CompressedSize64 fh
   \<and> UncompressedSize64 (SetMode fh mode) = UncompressedSize64 fh
   \<and> Extra (SetMode fh mode) = Extra fh
   \<and> Comment (SetMode fh mode) = Comment fh
   \<and> DeferAuth (SetMode fh mode) = DeferAuth fh
   \<and> encryption (SetMode fh mode) = encryption fh
   \<and> password (SetMode fh mode) = password fh
   \<and> ae (SetMode fh mode) = ae fh
   \<and> aesStrength (SetMode fh mode) = aesStrength fh"
proof -
  have "CreatorVersion (SetMode fh mode) AND 0xff = CreatorVersion fh AND 0xff"
    by (simp add: SetMode_CreatorVersion word_ao_dist word_bw_assocs)
  then show ?thesis
    by (simp add: SetMode_def Let_def)
qed

end
